theory Spec2Isabelle
  imports Complex_Main "HOL-Library.Word"
begin

unbundle bit_operations_syntax

section \<open>The firmware's data\<close>

text \<open>
  The embedding follows \<^verbatim>\<open>services/hexapod-edge/firmware/src/main.cpp\<close>.
  \<^verbatim>\<open>uint8_t\<close>, \<^verbatim>\<open>uint16_t\<close> and \<^verbatim>\<open>uint32_t\<close> are words of that width;
  \<^verbatim>\<open>int8_t\<close> and \<^verbatim>\<open>int16_t\<close> are words read with \<open>sint\<close>.

  A \<^verbatim>\<open>float\<close> field holds the real number the (finite) float denotes. The source
  compares floats with the decimal literals 0.3, 0.6, 0.7, 0.8 and 3.0 only; the model
  compares the reals with the same decimals. The literals are doubles in the source:
  3.0 is exact, and the section on floats below proves that comparing a binary32 value
  with the double nearest to 0.3, 0.6, 0.7 or 0.8 gives what comparing it with the
  decimal gives. Floating-point arithmetic whose rounding matters is not modelled on the
  reals: it is a field of \<open>fp_target\<close> below.
\<close>

record SensorData =
  timestamp :: "32 word"
  latitude :: real
  longitude :: real
  elevation :: real
  tilt_x :: real
  tilt_y :: real
  tilt_z :: real
  accel_x :: real
  accel_y :: real
  accel_z :: real
  gyro_x :: real
  gyro_y :: real
  gyro_z :: real
  pore_pressure :: real
  temperature :: real
  humidity :: real
  strain_gauge :: real
  battery_voltage :: real
  quality_flags :: "8 word"
  battery_level :: "8 word"
  signal_strength :: "8 word"

text \<open>\<^verbatim>\<open>EdgeAIResult\<close>; its \<^verbatim>\<open>timestamp\<close> is \<open>ai_timestamp\<close> here, the name being taken
  by \<open>SensorData\<close>.\<close>

record EdgeAIResult =
  anomaly_score :: real
  risk_level :: "8 word"
  confidence :: real
  ai_timestamp :: "32 word"

text \<open>The global variables the policy reads and writes (lines 82 to 86).\<close>

record globals =
  deviceJoined :: bool
  lastTransmission :: "32 word"
  transmissionInterval :: "32 word"
  failedTransmissions :: "8 word"
  emergencyMode :: bool

text \<open>
  What a function does besides updating the globals: the lines it prints, the pin writes,
  the delays and the calls into the ESP-IDF. A function of the model returns the list of
  these in the order the code performs them. \<open>esp_deep_sleep_start\<close> does not return:
  it is the last event of any list it occurs in.
\<close>

datatype printf_arg = Int_arg int | Float_arg real

datatype event =
    Serial_println string
  | Serial_printf string "printf_arg list"
  | digitalWrite nat bool
  | delay nat
  | esp_wifi_stop
  | esp_bt_controller_disable
  | esp_sleep_enable_timer_wakeup "64 word"
  | esp_deep_sleep_start

definition LED_PIN :: nat where
  "LED_PIN = 2"

definition HIGH :: bool where
  "HIGH = True"

definition LOW :: bool where
  "LOW = False"

definition CRITICAL_BATTERY_THRESHOLD :: real where
  "CRITICAL_BATTERY_THRESHOLD = 3"

text \<open>The initialisers of lines 82 to 86.\<close>

definition initial_globals :: globals where
  "initial_globals =
     \<lparr>deviceJoined = False, lastTransmission = 0, transmissionInterval = 30 * 60 * 1000,
      failedTransmissions = 0, emergencyMode = False\<rparr>"

section \<open>runEdgeAI: the risk level\<close>

text \<open>
  Lines 234 to 289. The forward pass (lines 236 to 275) is single-precision arithmetic
  with \<^verbatim>\<open>exp\<close>; its result, the value line 275 stores in \<^verbatim>\<open>aiResult.anomaly_score\<close>,
  is the argument \<open>score\<close>. What follows line 275 is modelled as written; the float
  that line 284 stores for 0.8 is \<open>13421773 / 2 ^ 24\<close>.
\<close>

definition runEdgeAI :: "real \<Rightarrow> SensorData \<Rightarrow> EdgeAIResult \<times> event list" where
  "runEdgeAI score currentReading =
     (let level = (if score < 3 / 10 then 0
                   else if score < 6 / 10 then 1
                   else if score < 8 / 10 then 2
                   else 3) :: 8 word
      in (\<lparr>anomaly_score = score, risk_level = level, confidence = 13421773 / 2 ^ 24,
            ai_timestamp = timestamp currentReading\<rparr>,
          [Serial_printf ''Edge AI - Anomaly Score: %.3f, Risk Level: %d\<newline>''
             [Float_arg score, Int_arg (uint level)]]))"

section \<open>processLocalDecisions\<close>

text \<open>The loop of lines 300 to 305, from the counter \<open>i\<close> on.\<close>

function flash_led :: "nat \<Rightarrow> event list" where
  "flash_led i =
     (if i < 10
      then [digitalWrite LED_PIN HIGH, delay 100, digitalWrite LED_PIN LOW, delay 100]
             @ flash_led (i + 1)
      else [])"
  by pat_completeness auto
termination
  by (relation "measure (\<lambda>i. 10 - i)") auto

declare flash_led.simps [simp del]

text \<open>Lines 502 to 514.\<close>

definition enterDeepSleep :: "32 word \<Rightarrow> event list" where
  "enterDeepSleep sleepTimeSeconds =
     [Serial_printf ''Entering deep sleep for %d seconds\<newline>'' [Int_arg (sint sleepTimeSeconds)],
      esp_wifi_stop,
      esp_bt_controller_disable,
      esp_sleep_enable_timer_wakeup (ucast sleepTimeSeconds * 1000000),
      esp_deep_sleep_start]"

text \<open>Lines 292 to 311: emergency mode is switched on or off.\<close>

definition emergency_transition :: "EdgeAIResult \<Rightarrow> globals \<Rightarrow> globals \<times> event list" where
  "emergency_transition aiResult g =
     (if risk_level aiResult = 3 \<and> confidence aiResult > 7 / 10 then
        (if \<not> emergencyMode g then
           (g\<lparr>emergencyMode := True, transmissionInterval := 1 * 60 * 1000\<rparr>,
            Serial_println ''EMERGENCY MODE ACTIVATED'' # flash_led 0)
         else (g, []))
      else if emergencyMode g \<and> risk_level aiResult = 0 then
        (g\<lparr>emergencyMode := False, transmissionInterval := 30 * 60 * 1000\<rparr>,
         [Serial_println ''Emergency mode deactivated''])
      else (g, []))"

text \<open>Lines 313 to 320: the interval of the risk tier.\<close>

definition adjust_interval :: "EdgeAIResult \<Rightarrow> globals \<Rightarrow> globals" where
  "adjust_interval aiResult g =
     (if risk_level aiResult \<ge> 2 then g\<lparr>transmissionInterval := 5 * 60 * 1000\<rparr>
      else if risk_level aiResult = 1 then g\<lparr>transmissionInterval := 15 * 60 * 1000\<rparr>
      else g\<lparr>transmissionInterval := 30 * 60 * 1000\<rparr>)"

text \<open>Lines 322 to 325.\<close>

definition battery_adjust :: "SensorData \<Rightarrow> globals \<Rightarrow> globals" where
  "battery_adjust currentReading g =
     (if battery_level currentReading < 20
      then g\<lparr>transmissionInterval := transmissionInterval g * 2\<rparr>
      else g)"

text \<open>Lines 327 to 331.\<close>

definition power_management :: "SensorData \<Rightarrow> event list" where
  "power_management currentReading =
     (if battery_voltage currentReading < CRITICAL_BATTERY_THRESHOLD
      then Serial_println ''Critical battery - entering deep sleep''
             # enterDeepSleep (4 * 60 * 60)
      else [])"

text \<open>
  The whole function: the globals when its body has run (the values \<open>enterDeepSleep\<close>
  is called with, when the battery is critical), and its events.
\<close>

definition processLocalDecisions ::
  "SensorData \<Rightarrow> EdgeAIResult \<Rightarrow> globals \<Rightarrow> globals \<times> event list" where
  "processLocalDecisions currentReading aiResult g =
     (let (g1, ev1) = emergency_transition aiResult g;
          g2 = adjust_interval aiResult g1;
          g3 = battery_adjust currentReading g2
      in (g3, ev1 @ power_management currentReading))"

section \<open>shouldTransmitData\<close>

text \<open>Lines 334 to 347; \<open>now\<close> is what \<^verbatim>\<open>millis()\<close> returns.\<close>

definition shouldTransmitData :: "EdgeAIResult \<Rightarrow> globals \<Rightarrow> 32 word \<Rightarrow> bool" where
  "shouldTransmitData aiResult g now =
     (let timeSinceLastTx = now - lastTransmission g
      in if emergencyMode g then True
         else if timeSinceLastTx \<ge> transmissionInterval g then True
         else if risk_level aiResult \<ge> 2 then True
         else False)"

section \<open>calculateSleepDuration\<close>

text \<open>
  \<^verbatim>\<open>baseSleep *= 0.7\<close> (line 431) converts \<^verbatim>\<open>baseSleep\<close> to a double, multiplies it by
  the double 0.7 and truncates the product to \<^verbatim>\<open>uint32_t\<close>. The double 0.7 is
  \<open>6305039478318694 / 2 ^ 53\<close>. A 32-bit integer is a double exactly, so the product
  is the exact product rounded to 53 significant bits, to nearest, ties to even;
  \<open>round53\<close> does this on the numerator.
\<close>

fun bitlen :: "nat \<Rightarrow> nat" where
  "bitlen n = (if n = 0 then 0 else Suc (bitlen (n div 2)))"

declare bitlen.simps [simp del]

definition round53 :: "nat \<Rightarrow> nat" where
  "round53 n =
     (let k = bitlen n
      in if k \<le> 53 then n
         else (let s = k - 53;
                   q = n div 2 ^ s;
                   r = n mod 2 ^ s;
                   q' = (if 2 * r > 2 ^ s \<or> (2 * r = 2 ^ s \<and> odd q) then q + 1 else q)
               in q' * 2 ^ s))"

definition times_0_7 :: "32 word \<Rightarrow> 32 word" where
  "times_0_7 baseSleep = of_nat (round53 (unat baseSleep * 6305039478318694) div 2 ^ 53)"

text \<open>Lines 409 to 435; \<open>now\<close> is what \<^verbatim>\<open>millis()\<close> returns.\<close>

definition calculateSleepDuration :: "EdgeAIResult \<Rightarrow> SensorData \<Rightarrow> 32 word \<Rightarrow> 32 word" where
  "calculateSleepDuration aiResult currentReading now =
     (let baseSleep0 = (if risk_level aiResult = 3 then 30 * 1000
                        else if risk_level aiResult = 2 then 2 * 60 * 1000
                        else if risk_level aiResult = 1 then 5 * 60 * 1000
                        else 15 * 60 * 1000) :: 32 word;
          baseSleep1 = (if battery_level currentReading < 20 then baseSleep0 * 2
                        else if battery_level currentReading < 10 then baseSleep0 * 4
                        else baseSleep0);
          hour = (now div 3600000) mod 24;
          isDaytime = (hour \<ge> 6 \<and> hour \<le> 18)
      in if isDaytime \<and> battery_level currentReading > 80
         then times_0_7 baseSleep1
         else baseSleep1)"

section \<open>handleDownlinkCommand\<close>

text \<open>
  Lines 528 to 559. \<open>buffer\<close> holds the bytes the pointer refers to and \<open>size'\<close> is the
  second argument; the caller (line 524) passes the number of bytes of the buffer.
  \<^verbatim>\<open>value * 60 * 1000\<close> is computed in \<^verbatim>\<open>int\<close> and stored in a \<^verbatim>\<open>uint32_t\<close>.
\<close>

definition handleDownlinkCommand ::
  "8 word list \<Rightarrow> 8 word \<Rightarrow> globals \<Rightarrow> globals \<times> event list" where
  "handleDownlinkCommand buffer size' g =
     (if size' < 2 then (g, [])
      else
        (let command = buffer ! 0;
             value = buffer ! 1
         in if command = 0x01 then
              (g\<lparr>transmissionInterval := ucast value * 60 * 1000\<rparr>,
               [Serial_printf ''Transmission interval updated to %d minutes\<newline>''
                  [Int_arg (uint value)]])
            else if command = 0x02 then
              (g\<lparr>lastTransmission := 0\<rparr>,
               [Serial_println ''Forced transmission requested''])
            else if command = 0x03 then
              (g, [Serial_println ''Entering maintenance mode''])
            else if command = 0x04 then
              (g, [Serial_printf ''AI threshold update: %d\<newline>'' [Int_arg (uint value)]])
            else
              (g, [Serial_printf ''Unknown command: 0x%02X\<newline>'' [Int_arg (uint command)]])))"

section \<open>prepareTxFrame\<close>

text \<open>
  The single-precision operations of lines 361 to 397, as the target performs them:
  \<open>float_object x i\<close> is byte \<open>i\<close> of the object representation of the float \<open>x\<close>
  (what \<^verbatim>\<open>memcpy\<close> reads), \<open>float_mul\<close> the rounded product, \<open>float_to_int16\<close> and
  \<open>float_to_uint16\<close> the casts (C++ leaves them undefined out of range). Every theorem
  below holds for every such target.
\<close>

record fp_target =
  float_object :: "real \<Rightarrow> nat \<Rightarrow> 8 word"
  float_mul :: "real \<Rightarrow> real \<Rightarrow> real"
  float_to_int16 :: "real \<Rightarrow> 16 word"
  float_to_uint16 :: "real \<Rightarrow> 16 word"

text \<open>The array \<^verbatim>\<open>payload\<close> and the variable \<^verbatim>\<open>index\<close>.\<close>

type_synonym tx_buffer = "8 word list \<times> nat"

text \<open>\<^verbatim>\<open>payload[index++] = b\<close>\<close>

definition put :: "8 word \<Rightarrow> tx_buffer \<Rightarrow> tx_buffer" where
  "put b buf = (case buf of (payload, index) \<Rightarrow> (payload[index := b], index + 1))"

text \<open>\<^verbatim>\<open>memcpy(&dst[pos], src, n)\<close>\<close>

primrec memcpy :: "8 word list \<Rightarrow> nat \<Rightarrow> (nat \<Rightarrow> 8 word) \<Rightarrow> nat \<Rightarrow> 8 word list" where
  "memcpy dst pos src 0 = dst"
| "memcpy dst pos src (Suc n) = (memcpy dst pos src n)[pos + n := src n]"

text \<open>\<^verbatim>\<open>memcpy(&payload[index], &x, 4); index += 4;\<close>\<close>

definition put_float :: "fp_target \<Rightarrow> real \<Rightarrow> tx_buffer \<Rightarrow> tx_buffer" where
  "put_float T x buf =
     (case buf of (payload, index) \<Rightarrow> (memcpy payload index (float_object T x) 4, index + 4))"

text \<open>
  The byte expressions. An \<^verbatim>\<open>int8_t\<close>, \<^verbatim>\<open>int16_t\<close> or \<^verbatim>\<open>uint16_t\<close> operand is promoted to \<^verbatim>\<open>int\<close>
  (32 bits, \<^verbatim>\<open>>>\<close> arithmetic) before \<^verbatim>\<open>>> 8\<close> and \<^verbatim>\<open>& 0xFF\<close>; the store into
  \<^verbatim>\<open>payload\<close> keeps the low 8 bits.
\<close>

definition u32_byte :: "nat \<Rightarrow> 32 word \<Rightarrow> 8 word" where
  "u32_byte n x = ucast (drop_bit n x AND 0xFF)"

definition int_byte :: "nat \<Rightarrow> 32 word \<Rightarrow> 8 word" where
  "int_byte n x = ucast (signed_drop_bit n x AND 0xFF)"

definition int8_promote :: "8 word \<Rightarrow> 32 word" where
  "int8_promote m = scast m"

definition int16_promote :: "16 word \<Rightarrow> 32 word" where
  "int16_promote m = scast m"

definition uint16_promote :: "16 word \<Rightarrow> 32 word" where
  "uint16_promote m = ucast m"

text \<open>The initialiser of \<^verbatim>\<open>measurements\<close>, lines 366 to 380.\<close>

definition measurements :: "fp_target \<Rightarrow> SensorData \<Rightarrow> 16 word list" where
  "measurements T currentReading =
     [float_to_int16 T (float_mul T (tilt_x currentReading) 1000),
      float_to_int16 T (float_mul T (tilt_y currentReading) 1000),
      float_to_int16 T (float_mul T (tilt_z currentReading) 1000),
      float_to_int16 T (float_mul T (accel_x currentReading) 100),
      float_to_int16 T (float_mul T (accel_y currentReading) 100),
      float_to_int16 T (float_mul T (accel_z currentReading) 100),
      float_to_int16 T (float_mul T (gyro_x currentReading) 1000),
      float_to_int16 T (float_mul T (gyro_y currentReading) 1000),
      float_to_int16 T (float_mul T (gyro_z currentReading) 1000),
      float_to_int16 T (pore_pressure currentReading),
      float_to_int16 T (float_mul T (temperature currentReading) 10),
      float_to_int16 T (humidity currentReading),
      float_to_int16 T (strain_gauge currentReading)]"

text \<open>The loop of lines 382 to 385, from the counter \<open>i\<close> on.\<close>

function put_measurements :: "16 word list \<Rightarrow> nat \<Rightarrow> tx_buffer \<Rightarrow> tx_buffer" where
  "put_measurements ms i buf =
     (if i < 13
      then put_measurements ms (i + 1)
             (put (int_byte 0 (int16_promote (ms ! i)))
               (put (int_byte 8 (int16_promote (ms ! i))) buf))
      else buf)"
  by pat_completeness auto
termination
  by (relation "measure (\<lambda>(ms, i, buf). 13 - i)") auto

declare put_measurements.simps [simp del]

text \<open>
  Lines 349 to 407. \<open>payload0\<close> is what the uninitialised array \<^verbatim>\<open>payload\<close> holds on
  entry. The result is \<^verbatim>\<open>appDataSize\<close>, the bytes line 404 copies into \<^verbatim>\<open>appData\<close>,
  and the events.
\<close>

definition prepareTxFrame ::
  "fp_target \<Rightarrow> SensorData \<Rightarrow> EdgeAIResult \<Rightarrow> globals \<Rightarrow> 8 word list
     \<Rightarrow> nat \<times> 8 word list \<times> event list" where
  "prepareTxFrame T currentReading aiResult g payload0 =
     (let buf0 = (payload0, 0);
          buf1 = fold put
                   [u32_byte 24 (timestamp currentReading),
                    u32_byte 16 (timestamp currentReading),
                    u32_byte 8 (timestamp currentReading),
                    u32_byte 0 (timestamp currentReading)] buf0;
          buf2 = put_float T (latitude currentReading) buf1;
          buf3 = put_float T (longitude currentReading) buf2;
          buf4 = put_float T (elevation currentReading) buf3;
          buf5 = put_measurements (measurements T currentReading) 0 buf4;
          buf6 = fold put
                   [quality_flags currentReading,
                    battery_level currentReading,
                    ucast (int8_promote (signal_strength currentReading) + 128)] buf5;
          anomaly_score_scaled = float_to_uint16 T (float_mul T (anomaly_score aiResult) 1000);
          buf7 = fold put
                   [int_byte 8 (uint16_promote anomaly_score_scaled),
                    int_byte 0 (uint16_promote anomaly_score_scaled),
                    risk_level aiResult] buf6;
          confidence_scaled = float_to_uint16 T (float_mul T (confidence aiResult) 1000);
          buf8 = fold put
                   [int_byte 8 (uint16_promote confidence_scaled),
                    int_byte 0 (uint16_promote confidence_scaled),
                    (if emergencyMode g then 1 else 0)] buf7
      in (case buf8 of (payload, index) \<Rightarrow>
            (index, take index payload,
             [Serial_printf ''Prepared payload: %d bytes\<newline>'' [Int_arg (int index)]])))"

section \<open>The wire format, as the specification words it\<close>

text \<open>A 16-bit and a 32-bit value, most significant byte first.\<close>

definition be16 :: "16 word \<Rightarrow> 8 word list" where
  "be16 w = [ucast (drop_bit 8 w), ucast w]"

definition be32 :: "32 word \<Rightarrow> 8 word list" where
  "be32 w = [ucast (drop_bit 24 w), ucast (drop_bit 16 w), ucast (drop_bit 8 w), ucast w]"

text \<open>The four bytes of a float, in the order they lie in memory.\<close>

definition float_bytes :: "fp_target \<Rightarrow> real \<Rightarrow> 8 word list" where
  "float_bytes T x = map (float_object T x) [0..<4]"

text \<open>The interval of a risk level (section 4.3 of the specification), in milliseconds.\<close>

definition tier_interval :: "8 word \<Rightarrow> 32 word" where
  "tier_interval risk = (if risk \<ge> 2 then 300000 else if risk = 1 then 900000 else 1800000)"

text \<open>
  The time from \<open>since\<close> to \<open>now\<close> on the 32-bit millisecond clock, which wraps to 0
  after \<open>2 ^ 32\<close> ms: when \<open>now\<close> is below \<open>since\<close> the clock has wrapped in between.
\<close>

definition elapsed_ms :: "32 word \<Rightarrow> 32 word \<Rightarrow> nat" where
  "elapsed_ms now since =
     (if unat since \<le> unat now then unat now - unat since
      else unat now + 2 ^ 32 - unat since)"

text \<open>
  \<open>writes buf bs buf'\<close>: from \<open>buf\<close> to \<open>buf'\<close> the bytes \<open>bs\<close> were appended at
  \<^verbatim>\<open>index\<close>, and nothing before \<^verbatim>\<open>index\<close> changed.
\<close>

definition writes :: "tx_buffer \<Rightarrow> 8 word list \<Rightarrow> tx_buffer \<Rightarrow> bool" where
  "writes buf bs buf' \<longleftrightarrow>
     length (fst buf') = length (fst buf) \<and>
     snd buf' = snd buf + length bs \<and>
     take (snd buf') (fst buf') = take (snd buf) (fst buf) @ bs"

section \<open>Floats and the double literals\<close>

text \<open>
  The finite binary32 values: plus or minus \<open>m * 2 ^ e\<close> with \<open>m\<close> below \<open>2 ^ 24\<close> and
  \<open>e\<close> from \<open>- 149\<close> to 104; \<open>k\<close> is \<open>e + 149\<close>. Then the doubles nearest to 0.3, 0.6,
  0.7 and 0.8, the values of the literals of lines 278 to 280 and 293.
\<close>

definition binary32 :: "real set" where
  "binary32 =
     {x. \<exists>m k :: nat. m < 2 ^ 24 \<and> k \<le> 253 \<and>
           (x = real m * 2 ^ k / 2 ^ 149 \<or> x = - (real m * 2 ^ k / 2 ^ 149))}"

definition double_0_3 :: real where
  "double_0_3 = 5404319552844595 / 2 ^ 54"

definition double_0_6 :: real where
  "double_0_6 = 5404319552844595 / 2 ^ 53"

definition double_0_7 :: real where
  "double_0_7 = 6305039478318694 / 2 ^ 53"

definition double_0_8 :: real where
  "double_0_8 = 7205759403792794 / 2 ^ 53"

section \<open>Sample inputs\<close>

text \<open>
  A reading whose channels all differ, some of them negative, and a target that agrees
  with binary32 arithmetic on the ESP32 for it: \<open>float_object\<close> gives the IEEE-754 single
  encodings of the three position values, least significant byte first
  (\<open>- 23.5\<close> is \<^verbatim>\<open>C1BC0000\<close>, \<open>- 46.5\<close> is \<^verbatim>\<open>C23A0000\<close>, 760 is \<^verbatim>\<open>443E0000\<close>), every
  product is a binary32 value, so the rounded product is the product, it lies within the
  16-bit range, and the casts truncate towards zero.
\<close>

definition sample_reading :: SensorData where
  "sample_reading =
     \<lparr>timestamp = 0x01020304, latitude = - 47 / 2, longitude = - 93 / 2, elevation = 760,
      tilt_x = 1 / 2, tilt_y = - 1 / 4, tilt_z = 1 / 8,
      accel_x = 3 / 2, accel_y = - 2, accel_z = 39 / 4,
      gyro_x = 1 / 4, gyro_y = - 1 / 8, gyro_z = 1,
      pore_pressure = 1203 / 4, temperature = 41 / 2, humidity = 60, strain_gauge = - 50,
      battery_voltage = 15 / 4, quality_flags = 0x3F, battery_level = 100,
      signal_strength = 0xB0\<rparr>"

definition sample_result :: EdgeAIResult where
  "sample_result =
     \<lparr>anomaly_score = 1 / 2, risk_level = 1, confidence = 1 / 2, ai_timestamp = 1000\<rparr>"

definition sample_target :: fp_target where
  "sample_target =
     \<lparr>float_object =
        (\<lambda>x i. (if x = - 47 / 2 then [0x00, 0x00, 0xBC, 0xC1]
                else if x = - 93 / 2 then [0x00, 0x00, 0x3A, 0xC2]
                else if x = 760 then [0x00, 0x00, 0x3E, 0x44]
                else [0x00, 0x00, 0x00, 0x00]) ! i),
      float_mul = (\<lambda>x y. x * y),
      float_to_int16 = (\<lambda>x. word_of_int (if x < 0 then \<lceil>x\<rceil> else \<lfloor>x\<rfloor>)),
      float_to_uint16 = (\<lambda>x. word_of_int (if x < 0 then \<lceil>x\<rceil> else \<lfloor>x\<rfloor>))\<rparr>"

section \<open>A float against a double literal\<close>

text \<open>
  A binary32 value of at least \<open>1 / 2 ^ q\<close> is a multiple of \<open>1 / 2 ^ (q + 23)\<close>. Between
  each of the four doubles and its decimal there is no such multiple, so the comparisons
  of the source, made in double precision, are the comparisons of the model.
\<close>

lemma binary32_grid:
  assumes x: "x \<in> binary32" and q: "q \<le> 126" and low: "1 / 2 ^ q \<le> x"
  shows "\<exists>j :: nat. x = real j / 2 ^ (q + 23)"
proof -
  from x obtain m k :: nat where m: "m < 2 ^ 24" and k: "k \<le> 253"
    and xv: "x = real m * 2 ^ k / 2 ^ 149 \<or> x = - (real m * 2 ^ k / 2 ^ 149)"
    unfolding binary32_def by blast
  have "0 < 1 / (2 :: real) ^ q"
    by simp
  with low have pos: "0 < x"
    by linarith
  have nonneg: "0 \<le> real m * 2 ^ k / (2 ^ 149 :: real)"
    by simp
  from xv pos nonneg have xv': "x = real m * 2 ^ k / 2 ^ 149"
    by linarith
  have big: "126 \<le> k + q"
  proof (rule ccontr)
    assume "\<not> 126 \<le> k + q"
    then have "k + q \<le> 125" by simp
    then have "(2 :: nat) ^ (k + q) \<le> 2 ^ 125"
      by (intro power_increasing) simp_all
    moreover have "m * 2 ^ (k + q) < 2 ^ 24 * 2 ^ (k + q)"
      using m by simp
    ultimately have "m * 2 ^ (k + q) < 2 ^ 24 * 2 ^ 125"
      by (meson le_trans less_le_trans mult_le_mono2 not_le)
    then have "m * 2 ^ (k + q) < 2 ^ 149"
      by simp
    then have "real (m * 2 ^ (k + q)) < real (2 ^ 149)"
      by (rule iffD2 [OF of_nat_less_iff])
    then have lt: "real m * 2 ^ k * 2 ^ q < 2 ^ 149"
      by (simp add: power_add mult.assoc)
    from low xv' have "1 / 2 ^ q \<le> real m * 2 ^ k / 2 ^ 149"
      by simp
    then have "2 ^ 149 \<le> real m * 2 ^ k * 2 ^ q"
      by (simp add: field_simps)
    with lt show False by simp
  qed
  define j where "j = m * 2 ^ (k + q - 126)"
  have kq: "k + q = (k + q - 126) + 126"
    using big by simp
  have "real j * 2 ^ 149 = real m * 2 ^ (k + q - 126) * 2 ^ 126 * 2 ^ 23"
    by (simp add: j_def)
  also have "\<dots> = real m * 2 ^ (k + q) * 2 ^ 23"
    by (subst (2) kq) (simp only: power_add mult.assoc)
  also have "\<dots> = real m * 2 ^ k * 2 ^ (q + 23)"
    by (simp add: power_add mult.assoc)
  finally have "real j * 2 ^ 149 = real m * 2 ^ k * 2 ^ (q + 23)" .
  then have "real m * 2 ^ k / 2 ^ 149 = real j / 2 ^ (q + 23)"
    by (simp add: field_simps)
  with xv' have "x = real j / 2 ^ (q + 23)"
    by (rule trans)
  then show ?thesis ..
qed

lemma float_less_0_3:
  assumes "x \<in> binary32"
  shows "x < double_0_3 \<longleftrightarrow> x < 3 / 10"
proof
  assume "x < double_0_3"
  then show "x < 3 / 10" by (simp add: double_0_3_def)
next
  assume up: "x < 3 / 10"
  show "x < double_0_3"
  proof (rule ccontr)
    assume "\<not> x < double_0_3"
    then have lo: "5404319552844595 / 2 ^ 54 \<le> x"
      by (simp add: double_0_3_def)
    then have "1 / 2 ^ 2 \<le> x" by simp
    from binary32_grid [OF assms _ this] obtain j :: nat where j: "x = real j / 2 ^ (2 + 23)"
      by auto
    from lo j have "10066329 < real j" by (simp add: field_simps)
    then have "10066330 \<le> j" by simp
    then have "10066330 \<le> real j" by simp
    with up j show False by (simp add: field_simps)
  qed
qed

lemma float_less_0_6:
  assumes "x \<in> binary32"
  shows "x < double_0_6 \<longleftrightarrow> x < 6 / 10"
proof
  assume "x < double_0_6"
  then show "x < 6 / 10" by (simp add: double_0_6_def)
next
  assume up: "x < 6 / 10"
  show "x < double_0_6"
  proof (rule ccontr)
    assume "\<not> x < double_0_6"
    then have lo: "5404319552844595 / 2 ^ 53 \<le> x"
      by (simp add: double_0_6_def)
    then have "1 / 2 ^ 1 \<le> x" by simp
    from binary32_grid [OF assms _ this] obtain j :: nat where j: "x = real j / 2 ^ (1 + 23)"
      by auto
    from lo j have "10066329 < real j" by (simp add: field_simps)
    then have "10066330 \<le> j" by simp
    then have "10066330 \<le> real j" by simp
    with up j show False by (simp add: field_simps)
  qed
qed

lemma float_less_0_8:
  assumes "x \<in> binary32"
  shows "x < double_0_8 \<longleftrightarrow> x < 8 / 10"
proof
  assume up: "x < double_0_8"
  show "x < 8 / 10"
  proof (rule ccontr)
    assume "\<not> x < 8 / 10"
    then have lo: "8 / 10 \<le> x" by simp
    then have "1 / 2 ^ 1 \<le> x" by simp
    from binary32_grid [OF assms _ this] obtain j :: nat where j: "x = real j / 2 ^ (1 + 23)"
      by auto
    from lo j have "13421772 < real j" by (simp add: field_simps)
    then have "13421773 \<le> j" by simp
    then have "13421773 \<le> real j" by simp
    with up j show False by (simp add: field_simps double_0_8_def)
  qed
next
  assume "x < 8 / 10"
  then show "x < double_0_8" by (simp add: double_0_8_def)
qed

lemma float_greater_0_7:
  assumes "x \<in> binary32"
  shows "double_0_7 < x \<longleftrightarrow> 7 / 10 < x"
proof
  assume lo: "double_0_7 < x"
  show "7 / 10 < x"
  proof (rule ccontr)
    assume "\<not> 7 / 10 < x"
    then have up: "x \<le> 7 / 10" by simp
    from lo have "1 / 2 ^ 1 \<le> x" by (simp add: double_0_7_def)
    from binary32_grid [OF assms _ this] obtain j :: nat where j: "x = real j / 2 ^ (1 + 23)"
      by auto
    from lo j have "11744051 < real j" by (simp add: field_simps double_0_7_def)
    then have "11744052 \<le> j" by simp
    then have "11744052 \<le> real j" by simp
    with up j show False by (simp add: field_simps)
  qed
next
  assume "7 / 10 < x"
  then show "double_0_7 < x" by (simp add: double_0_7_def)
qed

text \<open>The confidence \<^verbatim>\<open>runEdgeAI\<close> stores is such a value, above 0.7 either way.\<close>

lemma float_0_8_binary32: "(13421773 / 2 ^ 24 :: real) \<in> binary32"
proof -
  have "(13421773 / 2 ^ 24 :: real) = real 13421773 * 2 ^ 125 / 2 ^ 149"
    by simp
  moreover have "(13421773 :: nat) < 2 ^ 24" "(125 :: nat) \<le> 253"
    by simp_all
  ultimately show ?thesis
    unfolding binary32_def by blast
qed

lemma confidence_binary32:
  "confidence (fst (runEdgeAI score d)) \<in> binary32"
  "double_0_7 < confidence (fst (runEdgeAI score d))"
  "7 / 10 < confidence (fst (runEdgeAI score d))"
proof -
  have c: "confidence (fst (runEdgeAI score d)) = 13421773 / 2 ^ 24"
    by (simp add: runEdgeAI_def Let_def)
  show "confidence (fst (runEdgeAI score d)) \<in> binary32"
    unfolding c by (rule float_0_8_binary32)
  show "double_0_7 < confidence (fst (runEdgeAI score d))"
    unfolding c by (simp add: double_0_7_def)
  show "7 / 10 < confidence (fst (runEdgeAI score d))"
    unfolding c by simp
qed

section \<open>The policy cycle\<close>

lemma globals_after_cycle:
  "fst (processLocalDecisions d r g) =
     battery_adjust d (adjust_interval r (fst (emergency_transition r g)))"
  by (simp add: processLocalDecisions_def Let_def split_def)

lemma events_of_cycle:
  "snd (processLocalDecisions d r g) = snd (emergency_transition r g) @ power_management d"
  by (simp add: processLocalDecisions_def Let_def split_def)

lemma emergencyMode_battery_adjust [simp]:
  "emergencyMode (battery_adjust d g) = emergencyMode g"
  by (simp add: battery_adjust_def)

lemma emergencyMode_adjust_interval [simp]:
  "emergencyMode (adjust_interval r g) = emergencyMode g"
  by (simp add: adjust_interval_def)

lemma emergencyMode_transition:
  "emergencyMode (fst (emergency_transition r g)) =
     (risk_level r = 3 \<and> 7 / 10 < confidence r \<or> emergencyMode g \<and> risk_level r \<noteq> 0)"
  by (auto simp add: emergency_transition_def)

lemma emergencyMode_after_cycle:
  "emergencyMode (fst (processLocalDecisions d r g)) =
     (risk_level r = 3 \<and> 7 / 10 < confidence r \<or> emergencyMode g \<and> risk_level r \<noteq> 0)"
  by (simp add: globals_after_cycle emergencyMode_transition)

lemma interval_adjust_interval:
  "transmissionInterval (adjust_interval r g) = tier_interval (risk_level r)"
  by (simp add: adjust_interval_def tier_interval_def)

text \<open>
  Whatever the emergency step stored in \<^verbatim>\<open>transmissionInterval\<close>, lines 314 to 320
  overwrite it in every cycle.
\<close>

lemma interval_after_cycle:
  "transmissionInterval (fst (processLocalDecisions d r g)) =
     (if battery_level d < 20 then tier_interval (risk_level r) * 2
      else tier_interval (risk_level r))"
  by (simp add: globals_after_cycle battery_adjust_def interval_adjust_interval)

lemma interval_never_emergency_value:
  "transmissionInterval (fst (processLocalDecisions d r g)) \<noteq> 60000"
  by (simp add: interval_after_cycle tier_interval_def)

lemma println_notin_flash_led: "Serial_println s \<notin> set (flash_led i)"
  by (induction i rule: flash_led.induct) (subst flash_led.simps, simp)

lemma led_on_in_flash_led: "digitalWrite LED_PIN HIGH \<in> set (flash_led 0)"
  by (subst flash_led.simps) simp

lemma led_notin_power_management: "digitalWrite p v \<notin> set (power_management d)"
  by (simp add: power_management_def enterDeepSleep_def)

lemma alert_notin_power_management:
  "Serial_println ''EMERGENCY MODE ACTIVATED'' \<notin> set (power_management d)"
  by (simp add: power_management_def enterDeepSleep_def)

lemma alert_in_transition:
  "Serial_println ''EMERGENCY MODE ACTIVATED'' \<in> set (snd (emergency_transition r g)) \<longleftrightarrow>
     \<not> emergencyMode g \<and> risk_level r = 3 \<and> 7 / 10 < confidence r"
  by (simp add: emergency_transition_def)

lemma led_in_transition:
  "digitalWrite LED_PIN HIGH \<in> set (snd (emergency_transition r g)) \<longleftrightarrow>
     \<not> emergencyMode g \<and> risk_level r = 3 \<and> 7 / 10 < confidence r"
  by (simp add: emergency_transition_def led_on_in_flash_led)

text \<open>
  C1. The claim: while emergency mode is active, the interval a cycle leaves in
  \<^verbatim>\<open>transmissionInterval\<close> is the emergency value 60000 ms. The code does not do this.
  Take the initial globals, the sample reading (battery level 100) and the result
  \<^verbatim>\<open>runEdgeAI\<close> stores for the anomaly score 0.875: risk level 3, confidence 0.8.
  The emergency step switches emergency mode on and stores 60000 (line 296); at the end
  of the cycle emergency mode is on and the interval is 300000 ms, the tier of the risk
  level, stored by line 315.
\<close>

theorem emergency_interval_is_tier:
  "risk_level (fst (runEdgeAI (7 / 8) sample_reading)) = 3
   \<and> emergencyMode (fst (emergency_transition
         (fst (runEdgeAI (7 / 8) sample_reading)) initial_globals))
   \<and> transmissionInterval (fst (emergency_transition
         (fst (runEdgeAI (7 / 8) sample_reading)) initial_globals)) = 60000
   \<and> emergencyMode (fst (processLocalDecisions sample_reading
         (fst (runEdgeAI (7 / 8) sample_reading)) initial_globals))
   \<and> transmissionInterval (fst (processLocalDecisions sample_reading
         (fst (runEdgeAI (7 / 8) sample_reading)) initial_globals)) = 300000"
proof -
  define r where "r = fst (runEdgeAI (7 / 8) sample_reading)"
  have level: "risk_level r = 3" and sure: "7 / 10 < confidence r"
    by (simp_all add: r_def runEdgeAI_def Let_def)
  have off: "\<not> emergencyMode initial_globals"
    by (simp add: initial_globals_def)
  have step: "emergencyMode (fst (emergency_transition r initial_globals))"
    "transmissionInterval (fst (emergency_transition r initial_globals)) = 60000"
    using level sure off by (simp_all add: emergency_transition_def)
  have cycle: "emergencyMode (fst (processLocalDecisions sample_reading r initial_globals))"
    using level sure by (simp add: emergencyMode_after_cycle)
  have "battery_level sample_reading = 100"
    by (simp add: sample_reading_def)
  then have interval:
    "transmissionInterval (fst (processLocalDecisions sample_reading r initial_globals)) = 300000"
    using level by (simp add: interval_after_cycle tier_interval_def)
  from level step cycle interval show ?thesis
    unfolding r_def by simp
qed

text \<open>
  C5. A cycle switches emergency mode from off to on exactly when the risk level is 3 and
  the confidence is above 0.7; with risk level 3 and confidence 0.7 it stays off. The
  alert line and the LED flashes occur in a cycle exactly when it switches emergency mode
  from off to on, so never in a cycle that starts with emergency mode on.
\<close>

theorem emergency_entry:
  "((\<not> emergencyMode g \<and> emergencyMode (fst (processLocalDecisions d r g))) =
      (\<not> emergencyMode g \<and> risk_level r = 3 \<and> 7 / 10 < confidence r))
   \<and> (\<not> emergencyMode g \<and> risk_level r = 3 \<and> confidence r = 7 / 10
        \<longrightarrow> \<not> emergencyMode (fst (processLocalDecisions d r g)))
   \<and> ((Serial_println ''EMERGENCY MODE ACTIVATED'' \<in> set (snd (processLocalDecisions d r g))) =
        (\<not> emergencyMode g \<and> risk_level r = 3 \<and> 7 / 10 < confidence r))
   \<and> ((digitalWrite LED_PIN HIGH \<in> set (snd (processLocalDecisions d r g))) =
        (\<not> emergencyMode g \<and> risk_level r = 3 \<and> 7 / 10 < confidence r))"
proof -
  have entered: "(\<not> emergencyMode g \<and> emergencyMode (fst (processLocalDecisions d r g))) =
      (\<not> emergencyMode g \<and> risk_level r = 3 \<and> 7 / 10 < confidence r)"
    by (auto simp add: emergencyMode_after_cycle)
  have boundary: "\<not> emergencyMode g \<and> risk_level r = 3 \<and> confidence r = 7 / 10
        \<longrightarrow> \<not> emergencyMode (fst (processLocalDecisions d r g))"
    by (simp add: emergencyMode_after_cycle)
  have alert:
    "(Serial_println ''EMERGENCY MODE ACTIVATED'' \<in> set (snd (processLocalDecisions d r g))) =
        (\<not> emergencyMode g \<and> risk_level r = 3 \<and> 7 / 10 < confidence r)"
    by (simp add: events_of_cycle alert_in_transition alert_notin_power_management)
  have led: "(digitalWrite LED_PIN HIGH \<in> set (snd (processLocalDecisions d r g))) =
        (\<not> emergencyMode g \<and> risk_level r = 3 \<and> 7 / 10 < confidence r)"
    by (simp add: events_of_cycle led_in_transition led_notin_power_management)
  from entered boundary alert led show ?thesis by blast
qed

theorem emergency_entry_witness:
  "\<not> emergencyMode initial_globals
   \<and> risk_level (sample_result\<lparr>risk_level := 3, confidence := 7 / 10\<rparr>) = 3
   \<and> confidence (sample_result\<lparr>risk_level := 3, confidence := 7 / 10\<rparr>) = 7 / 10
   \<and> \<not> emergencyMode (fst (processLocalDecisions sample_reading
          (sample_result\<lparr>risk_level := 3, confidence := 7 / 10\<rparr>) initial_globals))"
  using emergency_entry [of initial_globals sample_reading
      "sample_result\<lparr>risk_level := 3, confidence := 7 / 10\<rparr>"]
  by (simp add: initial_globals_def)

text \<open>
  C6. A cycle switches emergency mode from on to off exactly when the risk level is 0,
  whatever the confidence; a cycle that starts with emergency mode on and has risk level
  1 or 2 ends with emergency mode on.
\<close>

theorem emergency_exit:
  "((emergencyMode g \<and> \<not> emergencyMode (fst (processLocalDecisions d r g))) =
      (emergencyMode g \<and> risk_level r = 0))
   \<and> (emergencyMode g \<and> (risk_level r = 1 \<or> risk_level r = 2)
        \<longrightarrow> emergencyMode (fst (processLocalDecisions d r g)))"
  by (auto simp add: emergencyMode_after_cycle)

theorem emergency_exit_witness:
  "emergencyMode (initial_globals\<lparr>emergencyMode := True\<rparr>)
   \<and> risk_level sample_result = 1
   \<and> emergencyMode (fst (processLocalDecisions sample_reading sample_result
        (initial_globals\<lparr>emergencyMode := True\<rparr>)))"
  using emergency_exit [of "initial_globals\<lparr>emergencyMode := True\<rparr>" sample_reading sample_result]
  by (simp add: sample_result_def)

text \<open>
  C7. The doubling for a battery level below 20 is applied to the interval of the risk
  tier: with risk level 0 and battery level 15 a cycle leaves 60 minutes in
  \<^verbatim>\<open>transmissionInterval\<close>; with a battery level of 20 or more it leaves the interval
  of the tier, and below 20 twice that. This holds in every cycle, in emergency mode or
  not.
\<close>

theorem battery_doubling:
  "(risk_level r = 0 \<and> battery_level d = 15
      \<longrightarrow> transmissionInterval (fst (processLocalDecisions d r g)) = 60 * 60 * 1000)
   \<and> (20 \<le> battery_level d
      \<longrightarrow> transmissionInterval (fst (processLocalDecisions d r g)) = tier_interval (risk_level r))
   \<and> (battery_level d < 20
      \<longrightarrow> transmissionInterval (fst (processLocalDecisions d r g)) = tier_interval (risk_level r) * 2)"
proof -
  have low: "risk_level r = 0 \<and> battery_level d = 15
      \<longrightarrow> transmissionInterval (fst (processLocalDecisions d r g)) = 60 * 60 * 1000"
    by (simp add: interval_after_cycle tier_interval_def)
  have plain: "20 \<le> battery_level d
      \<longrightarrow> transmissionInterval (fst (processLocalDecisions d r g)) = tier_interval (risk_level r)"
    by (simp add: interval_after_cycle linorder_not_less [symmetric])
  have doubled: "battery_level d < 20
      \<longrightarrow> transmissionInterval (fst (processLocalDecisions d r g)) = tier_interval (risk_level r) * 2"
    by (simp add: interval_after_cycle)
  from low plain doubled show ?thesis by blast
qed

theorem battery_doubling_witness:
  "risk_level (sample_result\<lparr>risk_level := 0\<rparr>) = 0
   \<and> battery_level (sample_reading\<lparr>battery_level := 15\<rparr>) = 15
   \<and> transmissionInterval (fst (processLocalDecisions (sample_reading\<lparr>battery_level := 15\<rparr>)
        (sample_result\<lparr>risk_level := 0\<rparr>) initial_globals)) = 3600000"
  using battery_doubling [of "sample_result\<lparr>risk_level := 0\<rparr>"
      "sample_reading\<lparr>battery_level := 15\<rparr>" initial_globals]
  by simp

section \<open>The transmission decision\<close>

text \<open>The difference line 335 computes is the elapsed time on the wrapping clock.\<close>

lemma elapsed_ms_eq: "elapsed_ms now since = unat (now - since)"
  by (simp add: elapsed_ms_def unat_sub_if_size word_size)

text \<open>
  C4. \<^verbatim>\<open>shouldTransmitData\<close> returns true if and only if emergency mode is on, or the
  time elapsed since \<^verbatim>\<open>lastTransmission\<close> is at least \<^verbatim>\<open>transmissionInterval\<close>, or the
  risk level is 2 or more.
\<close>

theorem transmit_decision:
  "shouldTransmitData r g now \<longleftrightarrow>
     emergencyMode g
     \<or> unat (transmissionInterval g) \<le> elapsed_ms now (lastTransmission g)
     \<or> 2 \<le> risk_level r"
  by (simp add: shouldTransmitData_def Let_def elapsed_ms_eq word_le_nat_alt)

section \<open>The sleep duration\<close>

text \<open>Line 431 on some values, as IEEE double arithmetic computes them.\<close>

lemma times_0_7_values:
  "times_0_7 30000 = 21000"
  "times_0_7 900000 = 630000"
  "times_0_7 10 = 7"
  "times_0_7 7 = 4"
  "times_0_7 123456789 = 86419752"
  "times_0_7 4294967295 = 3006477106"
  by (simp_all add: times_0_7_def round53_def Let_def bitlen.simps)

text \<open>
  The branch of line 423 is never taken: a battery level below 10 is below 20, and
  line 421 comes first.
\<close>

lemma quadruple_branch_dead:
  "calculateSleepDuration aiResult currentReading now =
     (let baseSleep0 = (if risk_level aiResult = 3 then 30000
                        else if risk_level aiResult = 2 then 120000
                        else if risk_level aiResult = 1 then 300000
                        else 900000);
          baseSleep1 = (if battery_level currentReading < 20 then baseSleep0 * 2 else baseSleep0);
          hour = (now div 3600000) mod 24
      in if 6 \<le> hour \<and> hour \<le> 18 \<and> 80 < battery_level currentReading
         then times_0_7 baseSleep1 else baseSleep1)"
proof -
  have "battery_level currentReading < 20" if "battery_level currentReading < 10"
    using that by (rule less_trans) simp
  then have "(if battery_level currentReading < 20 then x
              else if battery_level currentReading < 10 then y else z) =
             (if battery_level currentReading < 20 then x else z)" for x y z :: "32 word"
    by auto
  then show ?thesis
    by (simp add: calculateSleepDuration_def Let_def)
qed

text \<open>
  C2. The claim: with risk level 3 and battery level 5 at hour 12 the sleep duration is
  120 seconds, the base of 30 seconds times 4. The code returns 60000 ms, the base times
  2, at every time of day: line 421 tests \<^verbatim>\<open>battery_level < 20\<close> before line 423
  tests \<^verbatim>\<open>battery_level < 10\<close>.
\<close>

theorem sleep_low_battery_doubles:
  "calculateSleepDuration (aiResult\<lparr>risk_level := 3\<rparr>) (currentReading\<lparr>battery_level := 5\<rparr>) now
     = 60000"
  by (simp add: calculateSleepDuration_def Let_def)

section \<open>The risk level\<close>

text \<open>
  C9. The risk level of an anomaly score is 0 on [0, 0.3), 1 on [0.3, 0.6), 2 on
  [0.6, 0.8) and 3 on [0.8, 1]; the scores 0.3, 0.6 and 0.8 have the levels 1, 2 and 3.
\<close>

theorem risk_thresholds:
  "(0 \<le> score \<and> score < 3 / 10 \<longrightarrow> risk_level (fst (runEdgeAI score d)) = 0)
   \<and> (3 / 10 \<le> score \<and> score < 6 / 10 \<longrightarrow> risk_level (fst (runEdgeAI score d)) = 1)
   \<and> (6 / 10 \<le> score \<and> score < 8 / 10 \<longrightarrow> risk_level (fst (runEdgeAI score d)) = 2)
   \<and> (8 / 10 \<le> score \<and> score \<le> 1 \<longrightarrow> risk_level (fst (runEdgeAI score d)) = 3)
   \<and> risk_level (fst (runEdgeAI (3 / 10) d)) = 1
   \<and> risk_level (fst (runEdgeAI (6 / 10) d)) = 2
   \<and> risk_level (fst (runEdgeAI (8 / 10) d)) = 3"
  by (simp add: runEdgeAI_def Let_def)

theorem risk_thresholds_witness:
  "(0::real) \<le> 1 / 4 \<and> (1 / 4 :: real) < 3 / 10
   \<and> risk_level (fst (runEdgeAI (1 / 4) sample_reading)) = 0
   \<and> (3 / 10 :: real) \<le> 1 / 2 \<and> (1 / 2 :: real) < 6 / 10
   \<and> risk_level (fst (runEdgeAI (1 / 2) sample_reading)) = 1
   \<and> (6 / 10 :: real) \<le> 3 / 4 \<and> (3 / 4 :: real) < 8 / 10
   \<and> risk_level (fst (runEdgeAI (3 / 4) sample_reading)) = 2
   \<and> (8 / 10 :: real) \<le> 1 \<and> (1 :: real) \<le> 1
   \<and> risk_level (fst (runEdgeAI 1 sample_reading)) = 3"
  using risk_thresholds [of "1 / 4" sample_reading] risk_thresholds [of "1 / 2" sample_reading]
    risk_thresholds [of "3 / 4" sample_reading] risk_thresholds [of 1 sample_reading]
  by simp

section \<open>Downlink commands\<close>

lemma minutes_no_wrap: "unat (ucast (v :: 8 word) * 60000 :: 32 word) = unat v * 60000"
proof -
  have small: "unat v < 256"
    using unsigned_less [of v] by simp
  have up: "unat (ucast v :: 32 word) = unat v"
    using small by (simp add: unsigned_ucast_eq take_bit_nat_eq_self)
  have "unat (ucast v :: 32 word) * unat (60000 :: 32 word) < 2 ^ LENGTH(32)"
    using small by (simp add: up)
  then have "unat (ucast v * 60000 :: 32 word) = unat (ucast v :: 32 word) * unat (60000 :: 32 word)"
    by (rule unat_mult_lem [THEN iffD1])
  then show ?thesis
    by (simp add: up)
qed

text \<open>
  C8. With at least two bytes announced, command byte 0x01 and value byte \<open>v\<close>,
  \<^verbatim>\<open>handleDownlinkCommand\<close> sets \<^verbatim>\<open>transmissionInterval\<close> to \<open>v\<close> times 60000 ms, a
  product that does not wrap, and changes no other global; for \<open>v\<close> = 10 the interval is
  600000 ms. With a size below 2 it returns with the globals as they were and no event:
  nothing is printed and nothing is signalled.
\<close>

theorem downlink_set_interval:
  "(2 \<le> size' \<longrightarrow>
      handleDownlinkCommand (0x01 # v # rest) size' g =
        (g\<lparr>transmissionInterval := ucast v * 60000\<rparr>,
         [Serial_printf ''Transmission interval updated to %d minutes\<newline>'' [Int_arg (uint v)]])
      \<and> unat (ucast v * 60000 :: 32 word) = unat v * 60000)
   \<and> (2 \<le> size' \<longrightarrow>
      transmissionInterval (fst (handleDownlinkCommand (0x01 # 10 # rest) size' g)) = 600000)
   \<and> (size' < 2 \<longrightarrow> handleDownlinkCommand buffer size' g = (g, []))"
proof -
  have run: "handleDownlinkCommand (0x01 # w # rest) size' g =
        (g\<lparr>transmissionInterval := ucast w * 60000\<rparr>,
         [Serial_printf ''Transmission interval updated to %d minutes\<newline>'' [Int_arg (uint w)]])"
    if "2 \<le> size'" for w
    using that by (simp add: handleDownlinkCommand_def Let_def linorder_not_less [symmetric])
  have short: "size' < 2 \<longrightarrow> handleDownlinkCommand buffer size' g = (g, [])"
    by (simp add: handleDownlinkCommand_def)
  from run [of v] run [of 10] minutes_no_wrap [of v] short show ?thesis
    by simp
qed

theorem downlink_set_interval_witness:
  "(2 :: 8 word) \<le> 2
   \<and> transmissionInterval (fst (handleDownlinkCommand [0x01, 10] 2 initial_globals)) = 600000
   \<and> (1 :: 8 word) < 2
   \<and> handleDownlinkCommand [0x01] 1 initial_globals = (initial_globals, [])"
  using downlink_set_interval [of 2 10 "[]" initial_globals "[0x01]"]
    downlink_set_interval [of 1 10 "[]" initial_globals "[0x01]"]
  by simp

text \<open>
  C10. With at least two bytes announced and a command byte other than 0x01 and 0x02
  (0x03, 0x04 and every unknown command), \<^verbatim>\<open>handleDownlinkCommand\<close> leaves every
  global as it was.
\<close>

theorem downlink_other_commands:
  "2 \<le> size' \<and> command \<noteq> 0x01 \<and> command \<noteq> 0x02 \<longrightarrow>
     fst (handleDownlinkCommand (command # v # rest) size' g) = g"
  by (simp add: handleDownlinkCommand_def Let_def linorder_not_less [symmetric])

theorem downlink_other_commands_witness:
  "(2 :: 8 word) \<le> 2 \<and> (0x03 :: 8 word) \<noteq> 0x01 \<and> (0x03 :: 8 word) \<noteq> 0x02
   \<and> fst (handleDownlinkCommand [0x03, 7] 2 initial_globals) = initial_globals
   \<and> fst (handleDownlinkCommand [0x04, 7] 2 initial_globals) = initial_globals
   \<and> fst (handleDownlinkCommand [0xFF, 7] 2 initial_globals) = initial_globals"
  using downlink_other_commands [of 2 "0x03" 7 "[]" initial_globals]
    downlink_other_commands [of 2 "0x04" 7 "[]" initial_globals]
    downlink_other_commands [of 2 "0xFF" 7 "[]" initial_globals]
  by simp

section \<open>The uplink frame\<close>

text \<open>The two bytes of \<open>be16\<close> and the four of \<open>be32\<close> are the digits of the value in base 256.\<close>

lemma be32_value:
  "((unat (ucast (drop_bit 24 w) :: 8 word) * 256 + unat (ucast (drop_bit 16 w) :: 8 word)) * 256
      + unat (ucast (drop_bit 8 w) :: 8 word)) * 256 + unat (ucast w :: 8 word)
   = unat (w :: 32 word)"
proof -
  define n where "n = unat w"
  have bound: "n < 2 ^ 32"
    unfolding n_def using unsigned_less [of w] by simp
  have byte: "unat (ucast (drop_bit k w) :: 8 word) = n div 2 ^ k mod 256" for k
  proof -
    have "unat (ucast (drop_bit k w) :: 8 word) = take_bit 8 (drop_bit k (unat w))"
      by (simp add: unsigned_ucast_eq unat_drop_bit_eq)
    then show ?thesis by (simp add: take_bit_eq_mod drop_bit_eq_div n_def)
  qed
  have b0: "unat (ucast w :: 8 word) = n mod 256"
    by (simp add: unsigned_ucast_eq take_bit_eq_mod n_def)
  have b3: "unat (ucast (drop_bit 24 w) :: 8 word) = n div 16777216"
    using byte [of 24] bound by simp
  have b2: "unat (ucast (drop_bit 16 w) :: 8 word) = n div 65536 mod 256"
    using byte [of 16] by simp
  have b1: "unat (ucast (drop_bit 8 w) :: 8 word) = n div 256 mod 256"
    using byte [of 8] by simp
  have d2: "n div 65536 div 256 = n div 16777216"
    by (simp add: div_mult2_eq [symmetric])
  have d1: "n div 256 div 256 = n div 65536"
    by (simp add: div_mult2_eq [symmetric])
  have s2: "n div 16777216 * 256 + n div 65536 mod 256 = n div 65536"
    using div_mult_mod_eq [of "n div 65536" 256] d2 by simp
  have s1: "n div 65536 * 256 + n div 256 mod 256 = n div 256"
    using div_mult_mod_eq [of "n div 256" 256] d1 by simp
  have s0: "n div 256 * 256 + n mod 256 = n"
    by simp
  show ?thesis
    unfolding b3 b2 b1 b0 s2 s1 s0 n_def [symmetric] ..
qed

lemma writes_refl: "writes buf [] buf"
  by (simp add: writes_def)

lemma writes_trans:
  "writes a xs b \<Longrightarrow> writes b ys c \<Longrightarrow> writes a (xs @ ys) c"
  by (auto simp add: writes_def)

lemma writes_put:
  "snd buf < length (fst buf) \<Longrightarrow> writes buf [b] (put b buf)"
  by (cases buf) (simp add: writes_def put_def take_Suc_conv_app_nth)

lemma and_255: "(x :: 32 word) AND 255 = take_bit 8 x"
proof -
  have "(255 :: 32 word) = mask 8" by (simp add: mask_eq_exp_minus_1)
  then show ?thesis by (simp add: take_bit_eq_mask)
qed

lemma int_byte_hi_s: "int_byte 8 (int16_promote m) = ucast (drop_bit 8 m)"
  unfolding int_byte_def int16_promote_def and_255
  by (rule bit_word_eqI) (auto simp add: bit_simps)

lemma int_byte_lo_s: "int_byte 0 (int16_promote m) = ucast m"
  unfolding int_byte_def int16_promote_def and_255
  by (rule bit_word_eqI) (auto simp add: bit_simps)

lemma be16_value:
  "unat (ucast (drop_bit 8 w) :: 8 word) * 256 + unat (ucast w :: 8 word) = unat (w :: 16 word)"
proof -
  have bound: "unat w < 2 ^ 16"
    using unsigned_less [of w] by simp
  have "unat (ucast (drop_bit 8 w) :: 8 word) = take_bit 8 (drop_bit 8 (unat w))"
    by (simp add: unsigned_ucast_eq unat_drop_bit_eq)
  also have "\<dots> = unat w div 256"
    using bound by (simp add: take_bit_eq_mod drop_bit_eq_div)
  finally have hi: "unat (ucast (drop_bit 8 w) :: 8 word) = unat w div 256" .
  have lo: "unat (ucast w :: 8 word) = unat w mod 256"
    by (simp add: unsigned_ucast_eq take_bit_eq_mod)
  show ?thesis unfolding hi lo by simp
qed

lemma put_measurements_writes:
  "length ms = 13 \<Longrightarrow> i \<le> 13 \<Longrightarrow> snd buf + 2 * (13 - i) \<le> length (fst buf) \<Longrightarrow>
   writes buf (concat (map be16 (drop i ms))) (put_measurements ms i buf)"
proof (induction ms i buf rule: put_measurements.induct)
  case (1 ms i buf)
  show ?case
  proof (cases "i < 13")
    case False
    then have stop: "put_measurements ms i buf = buf"
      by (simp add: put_measurements.simps [of ms i buf])
    from False "1.prems" have "drop i ms = []"
      by simp
    then show ?thesis
      unfolding stop by (simp add: writes_refl)
  next
    case True
    define hi where "hi = int_byte 8 (int16_promote (ms ! i))"
    define lo where "lo = int_byte 0 (int16_promote (ms ! i))"
    define buf1 where "buf1 = put hi buf"
    define buf2 where "buf2 = put lo buf1"
    have w1: "writes buf [hi] buf1"
      unfolding buf1_def using True "1.prems" by (intro writes_put) simp
    have w2: "writes buf1 [lo] buf2"
      unfolding buf2_def using True "1.prems" w1 by (intro writes_put) (simp add: writes_def)
    have pair: "writes buf (be16 (ms ! i)) buf2"
      using writes_trans [OF w1 w2]
      by (simp add: be16_def hi_def lo_def int_byte_hi_s int_byte_lo_s)
    have room: "snd buf2 + 2 * (13 - (i + 1)) \<le> length (fst buf2)"
      using True "1.prems" pair by (simp add: writes_def be16_def)
    have rest: "writes buf2 (concat (map be16 (drop (i + 1) ms))) (put_measurements ms (i + 1) buf2)"
      using "1.IH" [OF True] "1.prems" True room
      by (simp add: buf2_def buf1_def hi_def lo_def)
    have unfold: "put_measurements ms i buf = put_measurements ms (i + 1) buf2"
      using True by (simp add: put_measurements.simps [of ms i buf] buf2_def buf1_def hi_def lo_def)
    have split: "drop i ms = ms ! i # drop (i + 1) ms"
      using True "1.prems" by (simp add: Cons_nth_drop_Suc)
    show ?thesis
      unfolding unfold split using writes_trans [OF pair rest] by simp
  qed
qed


lemma writes_fold_put:
  "snd buf + length bs \<le> length (fst buf) \<Longrightarrow> writes buf bs (fold put bs buf)"
proof (induction bs arbitrary: buf)
  case Nil
  show ?case by (simp add: writes_refl)
next
  case (Cons b bs)
  have step: "writes buf [b] (put b buf)"
    using Cons.prems by (intro writes_put) simp
  have room: "snd (put b buf) + length bs \<le> length (fst (put b buf))"
    using Cons.prems step by (simp add: writes_def)
  have "writes (put b buf) bs (fold put bs (put b buf))"
    by (rule Cons.IH [OF room])
  with step have "writes buf ([b] @ bs) (fold put bs (put b buf))"
    by (rule writes_trans)
  then show ?case by simp
qed

lemma memcpy_length [simp]: "length (memcpy dst pos src n) = length dst"
  by (induction n) simp_all

lemma memcpy_take:
  "pos + n \<le> length dst \<Longrightarrow>
   take (pos + n) (memcpy dst pos src n) = take pos dst @ map src [0..<n]"
proof (induction n)
  case 0
  show ?case by simp
next
  case (Suc n)
  have "take (pos + Suc n) (memcpy dst pos src (Suc n)) =
        take (pos + n) ((memcpy dst pos src n)[pos + n := src n]) @ [src n]"
    using Suc.prems by (simp add: take_Suc_conv_app_nth)
  also have "\<dots> = take (pos + n) (memcpy dst pos src n) @ [src n]"
    by simp
  also have "\<dots> = take pos dst @ map src [0..<Suc n]"
    using Suc by simp
  finally show ?case .
qed

lemma writes_put_float:
  "snd buf + 4 \<le> length (fst buf) \<Longrightarrow> writes buf (float_bytes T x) (put_float T x buf)"
  by (cases buf) (simp add: writes_def put_float_def float_bytes_def memcpy_take)

lemma u32_byte_eq: "u32_byte n x = ucast (drop_bit n x)"
  unfolding u32_byte_def and_255
  by (rule bit_word_eqI) (auto simp add: bit_simps)

lemma int_byte_hi_u: "int_byte 8 (uint16_promote m) = ucast (drop_bit 8 m)"
  unfolding int_byte_def uint16_promote_def and_255
  by (rule bit_word_eqI) (auto simp add: bit_simps)

lemma int_byte_lo_u: "int_byte 0 (uint16_promote m) = ucast m"
  unfolding int_byte_def uint16_promote_def and_255
  by (rule bit_word_eqI) (auto simp add: bit_simps)

lemma signal_byte: "(ucast (int8_promote s + 128) :: 8 word) = s + 128"
  unfolding int8_promote_def
  by transfer (simp add: take_bit_eq_mod signed_take_bit_eq_take_bit_shift)

lemma measurements_length: "length (measurements T d) = 13"
  by (simp add: measurements_def)

text \<open>
  The frame in terms of the array \<^verbatim>\<open>measurements\<close> of the code and of \<open>float_bytes\<close>.
\<close>

lemma frame_as_written:
  assumes "length payload0 = 64"
  shows "prepareTxFrame T currentReading aiResult g payload0 =
     (51,
      be32 (timestamp currentReading)
        @ float_bytes T (latitude currentReading)
        @ float_bytes T (longitude currentReading)
        @ float_bytes T (elevation currentReading)
        @ concat (map be16 (measurements T currentReading))
        @ [quality_flags currentReading, battery_level currentReading,
           signal_strength currentReading + 128]
        @ be16 (float_to_uint16 T (float_mul T (anomaly_score aiResult) 1000))
        @ [risk_level aiResult]
        @ be16 (float_to_uint16 T (float_mul T (confidence aiResult) 1000))
        @ [if emergencyMode g then 1 else 0],
      [Serial_printf ''Prepared payload: %d bytes\<newline>'' [Int_arg 51]])
    \<and> length (fst (snd (prepareTxFrame T currentReading aiResult g payload0))) = 51"
proof -
  define buf0 :: tx_buffer where "buf0 = (payload0, 0)"
  define buf1 where "buf1 = fold put
                   [u32_byte 24 (timestamp currentReading),
                    u32_byte 16 (timestamp currentReading),
                    u32_byte 8 (timestamp currentReading),
                    u32_byte 0 (timestamp currentReading)] buf0"
  define buf2 where "buf2 = put_float T (latitude currentReading) buf1"
  define buf3 where "buf3 = put_float T (longitude currentReading) buf2"
  define buf4 where "buf4 = put_float T (elevation currentReading) buf3"
  define buf5 where "buf5 = put_measurements (measurements T currentReading) 0 buf4"
  define buf6 where "buf6 = fold put
                   [quality_flags currentReading,
                    battery_level currentReading,
                    ucast (int8_promote (signal_strength currentReading) + 128)] buf5"
  define a where "a = float_to_uint16 T (float_mul T (anomaly_score aiResult) 1000)"
  define buf7 where "buf7 = fold put
                   [int_byte 8 (uint16_promote a), int_byte 0 (uint16_promote a),
                    risk_level aiResult] buf6"
  define c where "c = float_to_uint16 T (float_mul T (confidence aiResult) 1000)"
  define buf8 where "buf8 = fold put
                   [int_byte 8 (uint16_promote c), int_byte 0 (uint16_promote c),
                    (if emergencyMode g then 1 else 0)] buf7"
  have w1: "writes buf0 (be32 (timestamp currentReading)) buf1"
    unfolding buf1_def using writes_fold_put [of buf0 "be32 (timestamp currentReading)"] assms
    by (simp add: buf0_def be32_def u32_byte_eq)
  have i1: "snd buf1 = 4" "length (fst buf1) = 64"
    using w1 assms by (simp_all add: writes_def buf0_def be32_def)
  have w2: "writes buf1 (float_bytes T (latitude currentReading)) buf2"
    unfolding buf2_def by (rule writes_put_float) (simp add: i1)
  have i2: "snd buf2 = 8" "length (fst buf2) = 64"
    using w2 i1 by (simp_all add: writes_def float_bytes_def)
  have w3: "writes buf2 (float_bytes T (longitude currentReading)) buf3"
    unfolding buf3_def by (rule writes_put_float) (simp add: i2)
  have i3: "snd buf3 = 12" "length (fst buf3) = 64"
    using w3 i2 by (simp_all add: writes_def float_bytes_def)
  have w4: "writes buf3 (float_bytes T (elevation currentReading)) buf4"
    unfolding buf4_def by (rule writes_put_float) (simp add: i3)
  have i4: "snd buf4 = 16" "length (fst buf4) = 64"
    using w4 i3 by (simp_all add: writes_def float_bytes_def)
  have w5: "writes buf4 (concat (map be16 (measurements T currentReading))) buf5"
    unfolding buf5_def
    using put_measurements_writes [of "measurements T currentReading" 0 buf4]
    by (simp add: measurements_length i4)
  have l5: "length (concat (map be16 (measurements T currentReading))) = 26"
    by (simp add: measurements_def be16_def)
  have i5: "snd buf5 = 42" "length (fst buf5) = 64"
    using w5 i4 l5 by (simp_all add: writes_def)
  have w6: "writes buf5 [quality_flags currentReading, battery_level currentReading,
           signal_strength currentReading + 128] buf6"
    unfolding buf6_def signal_byte by (rule writes_fold_put) (simp add: i5)
  have i6: "snd buf6 = 45" "length (fst buf6) = 64"
    using w6 i5 by (simp_all add: writes_def)
  have w7: "writes buf6 (be16 a @ [risk_level aiResult]) buf7"
    unfolding buf7_def be16_def int_byte_hi_u int_byte_lo_u
    using writes_fold_put [of buf6 "[ucast (drop_bit 8 a), ucast a, risk_level aiResult]"]
    by (simp add: i6)
  have i7: "snd buf7 = 48" "length (fst buf7) = 64"
    using w7 i6 by (simp_all add: writes_def be16_def)
  have w8: "writes buf7 (be16 c @ [if emergencyMode g then 1 else 0]) buf8"
    unfolding buf8_def be16_def int_byte_hi_u int_byte_lo_u
    using writes_fold_put [of buf7 "[ucast (drop_bit 8 c), ucast c, if emergencyMode g then 1 else 0]"]
    by (simp add: i7)
  have i8: "snd buf8 = 51"
    using w8 i7 by (simp add: writes_def be16_def)
  have start: "take (snd buf0) (fst buf0) = []"
    by (simp add: buf0_def)
  have all: "writes buf0
     (be32 (timestamp currentReading)
        @ float_bytes T (latitude currentReading)
        @ float_bytes T (longitude currentReading)
        @ float_bytes T (elevation currentReading)
        @ concat (map be16 (measurements T currentReading))
        @ [quality_flags currentReading, battery_level currentReading,
           signal_strength currentReading + 128]
        @ (be16 a @ [risk_level aiResult])
        @ (be16 c @ [if emergencyMode g then 1 else 0])) buf8"
    by (intro writes_trans [OF w1] writes_trans [OF w2] writes_trans [OF w3]
        writes_trans [OF w4] writes_trans [OF w5] writes_trans [OF w6]
        writes_trans [OF w7] w8)
  have frame: "take 51 (fst buf8) =
      be32 (timestamp currentReading)
        @ float_bytes T (latitude currentReading)
        @ float_bytes T (longitude currentReading)
        @ float_bytes T (elevation currentReading)
        @ concat (map be16 (measurements T currentReading))
        @ [quality_flags currentReading, battery_level currentReading,
           signal_strength currentReading + 128]
        @ be16 a @ [risk_level aiResult]
        @ be16 c @ [if emergencyMode g then 1 else 0]"
    using all start i8 by (simp add: writes_def)
  have run: "prepareTxFrame T currentReading aiResult g payload0 =
     (snd buf8, take (snd buf8) (fst buf8),
      [Serial_printf ''Prepared payload: %d bytes\<newline>'' [Int_arg (int (snd buf8))]])"
    unfolding prepareTxFrame_def Let_def buf8_def buf7_def buf6_def buf5_def buf4_def buf3_def
      buf2_def buf1_def buf0_def a_def c_def
    by (simp only: split_def)
  have result: "prepareTxFrame T currentReading aiResult g payload0 =
     (51,
      be32 (timestamp currentReading)
        @ float_bytes T (latitude currentReading)
        @ float_bytes T (longitude currentReading)
        @ float_bytes T (elevation currentReading)
        @ concat (map be16 (measurements T currentReading))
        @ [quality_flags currentReading, battery_level currentReading,
           signal_strength currentReading + 128]
        @ be16 (float_to_uint16 T (float_mul T (anomaly_score aiResult) 1000))
        @ [risk_level aiResult]
        @ be16 (float_to_uint16 T (float_mul T (confidence aiResult) 1000))
        @ [if emergencyMode g then 1 else 0],
      [Serial_printf ''Prepared payload: %d bytes\<newline>'' [Int_arg 51]])"
    unfolding run i8 frame a_def c_def by simp
  have len: "length (fst (snd (prepareTxFrame T currentReading aiResult g payload0))) = 51"
    unfolding run i8 using i7 w8 by (simp add: writes_def)
  from result len show ?thesis ..
qed

lemma float_bytes_explicit:
  "float_bytes T x = [float_object T x 0, float_object T x 1, float_object T x 2, float_object T x 3]"
  by (simp add: float_bytes_def upt_rec numeral_2_eq_2 numeral_3_eq_3)

lemma measurements_bytes:
  "concat (map be16 (measurements T d)) =
     be16 (float_to_int16 T (float_mul T (tilt_x d) 1000))
     @ be16 (float_to_int16 T (float_mul T (tilt_y d) 1000))
     @ be16 (float_to_int16 T (float_mul T (tilt_z d) 1000))
     @ be16 (float_to_int16 T (float_mul T (accel_x d) 100))
     @ be16 (float_to_int16 T (float_mul T (accel_y d) 100))
     @ be16 (float_to_int16 T (float_mul T (accel_z d) 100))
     @ be16 (float_to_int16 T (float_mul T (gyro_x d) 1000))
     @ be16 (float_to_int16 T (float_mul T (gyro_y d) 1000))
     @ be16 (float_to_int16 T (float_mul T (gyro_z d) 1000))
     @ be16 (float_to_int16 T (pore_pressure d))
     @ be16 (float_to_int16 T (float_mul T (temperature d) 10))
     @ be16 (float_to_int16 T (humidity d))
     @ be16 (float_to_int16 T (strain_gauge d))"
  by (simp add: measurements_def)

text \<open>
  C3. Whatever the reading, the inference result, the target's float operations and the
  initial content of \<^verbatim>\<open>payload\<close>, \<^verbatim>\<open>prepareTxFrame\<close> produces exactly these 51 bytes,
  in this order:
  \<^item> the timestamp, 4 bytes, most significant first;
  \<^item> latitude, longitude and elevation, 4 bytes each: bytes 0, 1, 2, 3 of the float
    object in this order, as \<^verbatim>\<open>memcpy\<close> finds them in memory. They are not put in
    big-endian order: on the ESP32 the least significant byte of the IEEE-754 pattern
    comes first;
  \<^item> 13 signed 16-bit values, each most significant byte first: \<^verbatim>\<open>tilt_x\<close>,
    \<^verbatim>\<open>tilt_y\<close>, \<^verbatim>\<open>tilt_z\<close> times 1000; \<^verbatim>\<open>accel_x\<close>, \<^verbatim>\<open>accel_y\<close>, \<^verbatim>\<open>accel_z\<close> times
    100; \<^verbatim>\<open>gyro_x\<close>, \<^verbatim>\<open>gyro_y\<close>, \<^verbatim>\<open>gyro_z\<close> times 1000; \<^verbatim>\<open>pore_pressure\<close>;
    \<^verbatim>\<open>temperature\<close> times 10; \<^verbatim>\<open>humidity\<close>; \<^verbatim>\<open>strain_gauge\<close>; each product cast
    to \<^verbatim>\<open>int16_t\<close>;
  \<^item> the quality flags, the battery level, the signal strength plus 128, one byte each;
  \<^item> the anomaly score times 1000 cast to \<^verbatim>\<open>uint16_t\<close>, most significant byte first;
    the risk level; the confidence times 1000 cast to \<^verbatim>\<open>uint16_t\<close>, most significant
    byte first; the emergency flag, 1 or 0.
\<close>

theorem frame_layout:
  assumes "length payload0 = 64"
  shows "prepareTxFrame T currentReading aiResult g payload0 =
     (51,
      be32 (timestamp currentReading)
        @ [float_object T (latitude currentReading) 0, float_object T (latitude currentReading) 1,
           float_object T (latitude currentReading) 2, float_object T (latitude currentReading) 3]
        @ [float_object T (longitude currentReading) 0, float_object T (longitude currentReading) 1,
           float_object T (longitude currentReading) 2, float_object T (longitude currentReading) 3]
        @ [float_object T (elevation currentReading) 0, float_object T (elevation currentReading) 1,
           float_object T (elevation currentReading) 2, float_object T (elevation currentReading) 3]
        @ be16 (float_to_int16 T (float_mul T (tilt_x currentReading) 1000))
        @ be16 (float_to_int16 T (float_mul T (tilt_y currentReading) 1000))
        @ be16 (float_to_int16 T (float_mul T (tilt_z currentReading) 1000))
        @ be16 (float_to_int16 T (float_mul T (accel_x currentReading) 100))
        @ be16 (float_to_int16 T (float_mul T (accel_y currentReading) 100))
        @ be16 (float_to_int16 T (float_mul T (accel_z currentReading) 100))
        @ be16 (float_to_int16 T (float_mul T (gyro_x currentReading) 1000))
        @ be16 (float_to_int16 T (float_mul T (gyro_y currentReading) 1000))
        @ be16 (float_to_int16 T (float_mul T (gyro_z currentReading) 1000))
        @ be16 (float_to_int16 T (pore_pressure currentReading))
        @ be16 (float_to_int16 T (float_mul T (temperature currentReading) 10))
        @ be16 (float_to_int16 T (humidity currentReading))
        @ be16 (float_to_int16 T (strain_gauge currentReading))
        @ [quality_flags currentReading, battery_level currentReading,
           signal_strength currentReading + 128]
        @ be16 (float_to_uint16 T (float_mul T (anomaly_score aiResult) 1000))
        @ [risk_level aiResult]
        @ be16 (float_to_uint16 T (float_mul T (confidence aiResult) 1000))
        @ [if emergencyMode g then 1 else 0],
      [Serial_printf ''Prepared payload: %d bytes\<newline>'' [Int_arg 51]])
    \<and> length (fst (snd (prepareTxFrame T currentReading aiResult g payload0))) = 51"
proof -
  note written = frame_as_written [OF assms, of T currentReading aiResult g]
  from written have len:
    "length (fst (snd (prepareTxFrame T currentReading aiResult g payload0))) = 51"
    by (rule conjunct2)
  from written have
    "prepareTxFrame T currentReading aiResult g payload0 =
     (51,
      be32 (timestamp currentReading)
        @ float_bytes T (latitude currentReading)
        @ float_bytes T (longitude currentReading)
        @ float_bytes T (elevation currentReading)
        @ concat (map be16 (measurements T currentReading))
        @ [quality_flags currentReading, battery_level currentReading,
           signal_strength currentReading + 128]
        @ be16 (float_to_uint16 T (float_mul T (anomaly_score aiResult) 1000))
        @ [risk_level aiResult]
        @ be16 (float_to_uint16 T (float_mul T (confidence aiResult) 1000))
        @ [if emergencyMode g then 1 else 0],
      [Serial_printf ''Prepared payload: %d bytes\<newline>'' [Int_arg 51]])"
    by (rule conjunct1)
  then have bytes: "prepareTxFrame T currentReading aiResult g payload0 =
     (51,
      be32 (timestamp currentReading)
        @ [float_object T (latitude currentReading) 0, float_object T (latitude currentReading) 1,
           float_object T (latitude currentReading) 2, float_object T (latitude currentReading) 3]
        @ [float_object T (longitude currentReading) 0, float_object T (longitude currentReading) 1,
           float_object T (longitude currentReading) 2, float_object T (longitude currentReading) 3]
        @ [float_object T (elevation currentReading) 0, float_object T (elevation currentReading) 1,
           float_object T (elevation currentReading) 2, float_object T (elevation currentReading) 3]
        @ be16 (float_to_int16 T (float_mul T (tilt_x currentReading) 1000))
        @ be16 (float_to_int16 T (float_mul T (tilt_y currentReading) 1000))
        @ be16 (float_to_int16 T (float_mul T (tilt_z currentReading) 1000))
        @ be16 (float_to_int16 T (float_mul T (accel_x currentReading) 100))
        @ be16 (float_to_int16 T (float_mul T (accel_y currentReading) 100))
        @ be16 (float_to_int16 T (float_mul T (accel_z currentReading) 100))
        @ be16 (float_to_int16 T (float_mul T (gyro_x currentReading) 1000))
        @ be16 (float_to_int16 T (float_mul T (gyro_y currentReading) 1000))
        @ be16 (float_to_int16 T (float_mul T (gyro_z currentReading) 1000))
        @ be16 (float_to_int16 T (pore_pressure currentReading))
        @ be16 (float_to_int16 T (float_mul T (temperature currentReading) 10))
        @ be16 (float_to_int16 T (humidity currentReading))
        @ be16 (float_to_int16 T (strain_gauge currentReading))
        @ [quality_flags currentReading, battery_level currentReading,
           signal_strength currentReading + 128]
        @ be16 (float_to_uint16 T (float_mul T (anomaly_score aiResult) 1000))
        @ [risk_level aiResult]
        @ be16 (float_to_uint16 T (float_mul T (confidence aiResult) 1000))
        @ [if emergencyMode g then 1 else 0],
      [Serial_printf ''Prepared payload: %d bytes\<newline>'' [Int_arg 51]])"
    unfolding float_bytes_explicit measurements_bytes by simp
  from bytes len show ?thesis ..
qed

text \<open>
  The sample reading in emergency mode, with anomaly score 0.875, risk level 3 and
  confidence 0.75: the 51 bytes, from an array that held \<^verbatim>\<open>AA\<close> in every place.
\<close>

theorem frame_layout_witness:
  "length (replicate 64 (0xAA :: 8 word)) = 64
   \<and> prepareTxFrame sample_target sample_reading
        (sample_result\<lparr>anomaly_score := 7 / 8, risk_level := 3, confidence := 3 / 4\<rparr>)
        (initial_globals\<lparr>emergencyMode := True\<rparr>) (replicate 64 0xAA) =
       (51,
        [0x01, 0x02, 0x03, 0x04,
         0x00, 0x00, 0xBC, 0xC1,
         0x00, 0x00, 0x3A, 0xC2,
         0x00, 0x00, 0x3E, 0x44,
         1, 244, 255, 6, 0, 125,
         0, 150, 255, 56, 3, 207,
         0, 250, 255, 131, 3, 232,
         1, 44, 0, 205, 0, 60, 255, 206,
         0x3F, 100, 48,
         3, 107, 3, 2, 238, 1],
        [Serial_printf ''Prepared payload: %d bytes\<newline>'' [Int_arg 51]])"
  using frame_layout [of "replicate 64 0xAA" sample_target sample_reading
      "sample_result\<lparr>anomaly_score := 7 / 8, risk_level := 3, confidence := 3 / 4\<rparr>"
      "initial_globals\<lparr>emergencyMode := True\<rparr>"]
  by (simp add: be32_def be16_def sample_target_def sample_reading_def sample_result_def
      drop_bit_eq_div)

end
